theory Spec2Isabelle
  imports Main "HOL-Library.Word"
begin

section \<open>The TELNET line and server of UPELIB\<close>

text \<open>
  A shallow embedding of \<^verbatim>\<open>TerminalLine.cpp\<close>/\<^verbatim>\<open>TerminalLine.hpp\<close> (class
  \<^verbatim>\<open>CTerminalLine\<close>, the TELNET protocol engine of one connection) and of
  \<^verbatim>\<open>TerminalServer.cpp\<close>/\<^verbatim>\<open>TerminalServer.hpp\<close> (class \<^verbatim>\<open>CTerminalServer\<close>,
  the table of lines and the socket event handlers).

  Conventions of the embedding:
  \<^item> \<^verbatim>\<open>uint8_t\<close> is \<open>8 word\<close>; line numbers (\<^verbatim>\<open>uint32_t\<close>) are \<open>nat\<close>: the only
    arithmetic on them is the \<^verbatim>\<open>++nLine\<close> of a loop bounded by \<^verbatim>\<open>m_nMaxLines\<close>, which the
    constructor keeps at or below 64, so they never wrap; sockets (\<^verbatim>\<open>intptr_t\<close>) are
    \<open>int\<close>.
  \<^item> Everything the code does to the outside world is recorded, in program order, as a
    list of events: each call of winsock \<^verbatim>\<open>send()\<close> and \<^verbatim>\<open>closesocket()\<close>, each call of a
    host callback, each \<^verbatim>\<open>LockServer()\<close>/\<^verbatim>\<open>UnlockServer()\<close>. Log messages are not
    recorded.
  \<^item> A failed \<^verbatim>\<open>assert\<close> and the \<^verbatim>\<open>std::out_of_range\<close> thrown by \<^verbatim>\<open>std::vector::at\<close>
    are error values; the assertions are modelled as compiled in.
  \<^item> What the operating system answers (\<^verbatim>\<open>accept\<close>, \<^verbatim>\<open>WSAAsyncSelect\<close>,
    \<^verbatim>\<open>getpeername\<close>, \<^verbatim>\<open>recv\<close>) is a parameter of the function that asks.
\<close>

subsection \<open>Constants\<close>

type_synonym byte = "8 word"

text \<open>The TELNET command and option codes used by the code (\<^verbatim>\<open>TerminalLine.hpp\<close>).\<close>

definition IAC_WILL :: byte where "IAC_WILL = 251"
definition IAC_WONT :: byte where "IAC_WONT = 252"
definition IAC_DO :: byte where "IAC_DO = 253"
definition IAC_DONT :: byte where "IAC_DONT = 254"
definition IAC :: byte where "IAC = 255"
definition OPT_ECHO :: byte where "OPT_ECHO = 1"
definition OPT_SGA :: byte where "OPT_SGA = 3"

text \<open>The ASCII codes of \<^verbatim>\<open>UPELIB.hpp\<close>.\<close>

definition CHNUL :: byte where "CHNUL = 0x00"
definition CHLFD :: byte where "CHLFD = 0x0A"
definition CHCRT :: byte where "CHCRT = 0x0D"

text \<open>The constants of \<^verbatim>\<open>CTerminalServer\<close>.\<close>

definition DEFAULT_PORT :: "16 word" where "DEFAULT_PORT = 23"
definition DEFAULT_LINES :: nat where "DEFAULT_LINES = 64"
definition MAXRECV :: nat where "MAXRECV = 1024"
definition INADDR_ANY :: "32 word" where "INADDR_ANY = 0"

subsection \<open>Data\<close>

datatype TELNET_STATE =
    STA_NORMAL
  | STA_IAC_RCVD
  | STA_WILL_RCVD
  | STA_WONT_RCVD
  | STA_DO_RCVD
  | STA_DONT_RCVD
  | STA_CR_LAST

datatype OPTION_STATE = OPT_DISABLED | OPT_ENABLED | OPT_WAITING

text \<open>
  The members of \<^verbatim>\<open>CTerminalLine\<close>. The reference \<^verbatim>\<open>m_Server\<close> is not a field: the
  methods that use it take the server as an argument.
\<close>

record CTerminalLine =
  m_nLine :: nat
  m_ClientSocket :: int
  m_lClientIP :: "32 word"
  m_nClientPort :: "16 word"
  m_staCurrent :: TELNET_STATE
  m_optLocalEcho :: OPTION_STATE
  m_optLocalSGA :: OPTION_STATE
  m_optRemoteSGA :: OPTION_STATE

text \<open>
  The observable actions. \<open>EvSend skt bytes\<close> is one call \<^verbatim>\<open>send(skt, bytes, ...)\<close>;
  \<open>EvReceive n ch\<close>, \<open>EvConnect n c\<close> and \<open>EvDisconnect n c\<close> are calls of the three host
  callbacks for line \<open>n\<close> (the constant \<^verbatim>\<open>m_lCallbackParam\<close> they also get is left out),
  where \<open>c\<close> is what \<^verbatim>\<open>IsLineConnected(n)\<close> would answer the callback at the moment it is
  called; \<open>EvCloseSocket skt\<close> is \<^verbatim>\<open>closesocket(skt)\<close>.
\<close>

datatype event =
    EvSend int "byte list"
  | EvReceive nat byte
  | EvConnect nat bool
  | EvDisconnect nat bool
  | EvCloseSocket int
  | EvLock
  | EvUnlock

datatype error = AssertionFailed | OutOfRange

text \<open>
  The members of \<^verbatim>\<open>CTerminalServer\<close> that the modelled methods read or write. A callback
  pointer whose result is not used is a \<open>bool\<close> (is it non-null); the connect callback,
  whose result decides, is an optional function of the line number. The window, thread,
  winsock and mutex handles are left out.
\<close>

record CTerminalServer =
  m_nMaxLines :: nat
  m_nServerPort :: "16 word"
  m_lServerIP :: "32 word"
  m_apLines :: "CTerminalLine option list"
  m_mapSocket :: "int \<rightharpoonup> nat"
  m_pConnectCallback :: "(nat \<Rightarrow> bool) option"
  m_pDisconnectCallback :: bool
  m_pReceiveCallback :: bool
  m_lCallbackParam :: int

subsection \<open>CTerminalLine\<close>

text \<open>
  \<^verbatim>\<open>CTerminalServer::ReceiveCallback\<close> (\<^verbatim>\<open>TerminalServer.hpp\<close>): asserts that the receive
  callback is set, then calls it.
\<close>

definition ReceiveCallback :: "CTerminalServer \<Rightarrow> nat \<Rightarrow> byte \<Rightarrow> error + event list" where
  "ReceiveCallback srv nLine ch =
     (if m_pReceiveCallback srv then Inr [EvReceive nLine ch] else Inl AssertionFailed)"

text \<open>
  The constructor of a line; \<open>peer\<close> is what \<^verbatim>\<open>getpeername\<close> answers (\<open>None\<close> when it
  fails, which leaves address and port 0).
\<close>

definition new_CTerminalLine :: "nat \<Rightarrow> int \<Rightarrow> (32 word \<times> 16 word) option \<Rightarrow> CTerminalLine" where
  "new_CTerminalLine nLine skt peer =
     \<lparr> m_nLine = nLine, m_ClientSocket = skt,
       m_lClientIP = (case peer of None \<Rightarrow> 0 | Some (ip, port) \<Rightarrow> ip),
       m_nClientPort = (case peer of None \<Rightarrow> 0 | Some (ip, port) \<Rightarrow> port),
       m_staCurrent = STA_NORMAL,
       m_optLocalEcho = OPT_ENABLED,
       m_optLocalSGA = OPT_DISABLED,
       m_optRemoteSGA = OPT_DISABLED \<rparr>"

text \<open>
  \<^verbatim>\<open>SocketWrite\<close> hands the buffer to \<^verbatim>\<open>send()\<close>. Its boolean result (did winsock take
  all of it) only selects the log message in \<^verbatim>\<open>SendCommand\<close>, so the model keeps the
  call and not the result.
\<close>

definition SocketWrite :: "CTerminalLine \<Rightarrow> byte list \<Rightarrow> event list" where
  "SocketWrite l abData = [EvSend (m_ClientSocket l) abData]"

definition SendCommand :: "CTerminalLine \<Rightarrow> byte \<Rightarrow> byte \<Rightarrow> event list" where
  "SendCommand l nCommand nOption = SocketWrite l [IAC, nCommand, nOption]"

definition SendWill :: "CTerminalLine \<Rightarrow> byte \<Rightarrow> event list" where
  "SendWill l nOption = SendCommand l IAC_WILL nOption"

definition SendWont :: "CTerminalLine \<Rightarrow> byte \<Rightarrow> event list" where
  "SendWont l nOption = SendCommand l IAC_WONT nOption"

definition SendDo :: "CTerminalLine \<Rightarrow> byte \<Rightarrow> event list" where
  "SendDo l nOption = SendCommand l IAC_DO nOption"

definition SendDont :: "CTerminalLine \<Rightarrow> byte \<Rightarrow> event list" where
  "SendDont l nOption = SendCommand l IAC_DONT nOption"

definition HandleWill :: "byte \<Rightarrow> CTerminalLine \<Rightarrow> CTerminalLine \<times> event list" where
  "HandleWill nOption l =
     (if nOption = OPT_SGA then
        (l\<lparr>m_optRemoteSGA := OPT_ENABLED\<rparr>,
         if m_optRemoteSGA l \<noteq> OPT_WAITING then SendDo l OPT_SGA else [])
      else (l, SendDont l nOption))"

definition HandleWont :: "byte \<Rightarrow> CTerminalLine \<Rightarrow> CTerminalLine \<times> event list" where
  "HandleWont nOption l = (l, [])"

definition HandleDo :: "byte \<Rightarrow> CTerminalLine \<Rightarrow> CTerminalLine \<times> event list" where
  "HandleDo nOption l =
     (if nOption = OPT_SGA then
        (l\<lparr>m_optLocalSGA := OPT_ENABLED\<rparr>,
         if m_optLocalSGA l \<noteq> OPT_WAITING then SendWill l OPT_SGA else [])
      else if nOption = OPT_ECHO then
        (case m_optLocalEcho l of
           OPT_WAITING \<Rightarrow> (l\<lparr>m_optLocalEcho := OPT_DISABLED\<rparr>, [])
         | OPT_ENABLED \<Rightarrow> (l, SendWont l OPT_ECHO)
         | OPT_DISABLED \<Rightarrow> (l, SendWill l OPT_ECHO))
      else (l, SendWont l nOption))"

definition HandleDont :: "byte \<Rightarrow> CTerminalLine \<Rightarrow> CTerminalLine \<times> event list" where
  "HandleDont nOption l =
     (if nOption = OPT_SGA then (l, [])
      else if nOption = OPT_ECHO then (l\<lparr>m_optLocalEcho := OPT_ENABLED\<rparr>, [])
      else (l, []))"

text \<open>
  \<^verbatim>\<open>NextState\<close> returns the new state and, through the handlers, changes the option
  members; the caller stores the state. The \<^verbatim>\<open>default: assert(false)\<close> of the outer
  switch has no counterpart: every value of the datatype has its case.
\<close>

definition NextState ::
  "CTerminalServer \<Rightarrow> byte \<Rightarrow> CTerminalLine \<Rightarrow> error + (TELNET_STATE \<times> CTerminalLine \<times> event list)" where
  "NextState srv ch l =
     (case m_staCurrent l of
        STA_NORMAL \<Rightarrow> Inr (if ch = IAC then STA_IAC_RCVD else STA_NORMAL, l, [])
      | STA_CR_LAST \<Rightarrow>
          (if ch \<noteq> CHNUL \<and> ch \<noteq> CHLFD then
             (case ReceiveCallback srv (m_nLine l) ch of
                Inl e \<Rightarrow> Inl e
              | Inr evs \<Rightarrow> Inr (STA_NORMAL, l, evs))
           else Inr (STA_NORMAL, l, []))
      | STA_IAC_RCVD \<Rightarrow>
          (if ch = IAC_WILL then Inr (STA_WILL_RCVD, l, [])
           else if ch = IAC_WONT then Inr (STA_WONT_RCVD, l, [])
           else if ch = IAC_DO then Inr (STA_DO_RCVD, l, [])
           else if ch = IAC_DONT then Inr (STA_DONT_RCVD, l, [])
           else if ch = IAC then
             (case ReceiveCallback srv (m_nLine l) ch of
                Inl e \<Rightarrow> Inl e
              | Inr evs \<Rightarrow> Inr (STA_NORMAL, l, evs))
           else Inr (STA_NORMAL, l, []))
      | STA_WILL_RCVD \<Rightarrow> (case HandleWill ch l of (l', evs) \<Rightarrow> Inr (STA_NORMAL, l', evs))
      | STA_WONT_RCVD \<Rightarrow> (case HandleWont ch l of (l', evs) \<Rightarrow> Inr (STA_NORMAL, l', evs))
      | STA_DO_RCVD \<Rightarrow> (case HandleDo ch l of (l', evs) \<Rightarrow> Inr (STA_NORMAL, l', evs))
      | STA_DONT_RCVD \<Rightarrow> (case HandleDont ch l of (l', evs) \<Rightarrow> Inr (STA_NORMAL, l', evs)))"

definition Receive ::
  "CTerminalServer \<Rightarrow> byte \<Rightarrow> CTerminalLine \<Rightarrow> error + (CTerminalLine \<times> event list)" where
  "Receive srv ch l =
     (if m_staCurrent l = STA_NORMAL \<and> ch \<noteq> IAC then
        (case (if ch \<noteq> CHNUL then ReceiveCallback srv (m_nLine l) ch else Inr []) of
           Inl e \<Rightarrow> Inl e
         | Inr evs \<Rightarrow> Inr (if ch = CHCRT then l\<lparr>m_staCurrent := STA_CR_LAST\<rparr> else l, evs))
      else
        (case NextState srv ch l of
           Inl e \<Rightarrow> Inl e
         | Inr (sta, l', evs) \<Rightarrow> Inr (l'\<lparr>m_staCurrent := sta\<rparr>, evs)))"

text \<open>
  The loop of \<^verbatim>\<open>SocketRead\<close>,
  \<^verbatim>\<open>for (i = 0; i < cbBuffer; ++i) pLine->Receive(szBuffer[i])\<close>: the bytes of the buffer
  go to \<^verbatim>\<open>Receive\<close> one at a time, in order, and the events add up.
\<close>

fun Receive_loop ::
  "CTerminalServer \<Rightarrow> byte list \<Rightarrow> CTerminalLine \<Rightarrow> error + (CTerminalLine \<times> event list)" where
  "Receive_loop srv [] l = Inr (l, [])"
| "Receive_loop srv (ch # rest) l =
     (case Receive srv ch l of
        Inl e \<Rightarrow> Inl e
      | Inr (l', evs) \<Rightarrow>
          (case Receive_loop srv rest l' of
             Inl e \<Rightarrow> Inl e
           | Inr (l'', evs') \<Rightarrow> Inr (l'', evs @ evs')))"

definition SetLocalEcho :: "bool \<Rightarrow> CTerminalLine \<Rightarrow> CTerminalLine \<times> event list" where
  "SetLocalEcho fEcho l =
     (if m_optLocalEcho l = OPT_WAITING then (l, [])
      else if fEcho then
        (if m_optLocalEcho l = OPT_ENABLED then (l, [])
         else (l\<lparr>m_optLocalEcho := OPT_WAITING\<rparr>, SendWont l OPT_ECHO))
      else
        (if m_optLocalEcho l = OPT_DISABLED then (l, [])
         else (l\<lparr>m_optLocalEcho := OPT_WAITING\<rparr>, SendWill l OPT_ECHO)))"

definition SuppressGoAhead :: "CTerminalLine \<Rightarrow> CTerminalLine \<times> event list" where
  "SuppressGoAhead l =
     (let (l1, evs1) =
            (if m_optLocalSGA l \<noteq> OPT_ENABLED
             then (l\<lparr>m_optLocalSGA := OPT_WAITING\<rparr>, SendWill l OPT_SGA) else (l, []));
          (l2, evs2) =
            (if m_optRemoteSGA l1 \<noteq> OPT_ENABLED
             then (l1\<lparr>m_optRemoteSGA := OPT_WAITING\<rparr>, SendDo l1 OPT_SGA) else (l1, []))
      in (l2, evs1 @ evs2))"

subsection \<open>CTerminalServer\<close>

text \<open>
  The constructor. \<open>fExists\<close> says whether the singleton pointer \<^verbatim>\<open>m_pServer\<close> is
  already set; \<open>pReceive\<close> and \<open>pDisconnect\<close> say whether those callback pointers are
  non-null. The three assertions come first, in the order of the source.
\<close>

definition new_CTerminalServer ::
  "bool \<Rightarrow> bool \<Rightarrow> (nat \<Rightarrow> bool) option \<Rightarrow> bool \<Rightarrow> int \<Rightarrow> 32 word \<Rightarrow> error + CTerminalServer" where
  "new_CTerminalServer fExists pReceive pConnect pDisconnect lCallbackParam nMaxLines =
     (if fExists then Inl AssertionFailed
      else if \<not> (unat nMaxLines > 0 \<and> unat nMaxLines \<le> DEFAULT_LINES) then Inl AssertionFailed
      else if \<not> pReceive then Inl AssertionFailed
      else Inr \<lparr> m_nMaxLines = unat nMaxLines,
                 m_nServerPort = DEFAULT_PORT,
                 m_lServerIP = INADDR_ANY,
                 m_apLines = replicate (unat nMaxLines) None,
                 m_mapSocket = Map.empty,
                 m_pConnectCallback = pConnect,
                 m_pDisconnectCallback = pDisconnect,
                 m_pReceiveCallback = pReceive,
                 m_lCallbackParam = lCallbackParam \<rparr>)"

text \<open>\<^verbatim>\<open>Line(n)\<close> is \<^verbatim>\<open>m_apLines.at(n)\<close>, which throws when \<open>n\<close> is out of range.\<close>

definition Line :: "CTerminalServer \<Rightarrow> nat \<Rightarrow> error + CTerminalLine option" where
  "Line s n = (if n < length (m_apLines s) then Inr (m_apLines s ! n) else Inl OutOfRange)"

text \<open>
  \<^verbatim>\<open>IsLineConnected(n)\<close> is \<^verbatim>\<open>m_apLines[n] != NULL\<close>, unchecked; the model uses it only
  for \<open>n\<close> in range.
\<close>

definition IsLineConnected :: "CTerminalServer \<Rightarrow> nat \<Rightarrow> bool" where
  "IsLineConnected s n = (m_apLines s ! n \<noteq> None)"

definition IsSocketConnected :: "CTerminalServer \<Rightarrow> int \<Rightarrow> bool" where
  "IsSocketConnected s skt = (m_mapSocket s skt \<noteq> None)"

text \<open>
  \<^verbatim>\<open>SocketToLine(skt)\<close> is \<^verbatim>\<open>m_mapSocket[skt]\<close>: \<^verbatim>\<open>operator[]\<close> of
  \<^verbatim>\<open>std::unordered_map\<close> inserts a value-initialised entry (line 0) for a key that is
  missing, and returns it.
\<close>

definition SocketToLine :: "int \<Rightarrow> CTerminalServer \<Rightarrow> nat \<times> CTerminalServer" where
  "SocketToLine skt s =
     (case m_mapSocket s skt of
        Some n \<Rightarrow> (n, s)
      | None \<Rightarrow> (0, s\<lparr>m_mapSocket := (m_mapSocket s)(skt \<mapsto> 0)\<rparr>))"

definition Disconnect ::
  "nat \<Rightarrow> CTerminalServer \<Rightarrow> error + (CTerminalServer \<times> event list)" where
  "Disconnect nLine s =
     (case Line s nLine of
        Inl e \<Rightarrow> Inl e
      | Inr None \<Rightarrow> Inl AssertionFailed
      | Inr (Some pLine) \<Rightarrow>
          (let evs1 = (if m_pDisconnectCallback s
                       then [EvDisconnect nLine (IsLineConnected s nLine)] else []);
               sktClient = m_ClientSocket pLine;
               evs2 = [EvCloseSocket sktClient];
               s1 = s\<lparr>m_apLines := (m_apLines s)[nLine := None]\<rparr>;
               s2 = s1\<lparr>m_mapSocket := (m_mapSocket s1)(sktClient := None)\<rparr>
           in Inr (s2, evs1 @ evs2 @ [EvUnlock])))"

text \<open>
  The search of \<^verbatim>\<open>SocketAccept\<close> for a free line,
  \<^verbatim>\<open>for (nLine = 0; nLine < m_nMaxLines; ++nLine) if (Line(nLine) == NULL) break;\<close>,
  started at \<open>nLine\<close>: the result is the value of \<open>nLine\<close> after the loop.
\<close>

function FindFreeLine :: "CTerminalServer \<Rightarrow> nat \<Rightarrow> error + nat" where
  "FindFreeLine s nLine =
     (if nLine < m_nMaxLines s then
        (case Line s nLine of
           Inl e \<Rightarrow> Inl e
         | Inr None \<Rightarrow> Inr nLine
         | Inr (Some pLine) \<Rightarrow> FindFreeLine s (nLine + 1))
      else Inr nLine)"
  by pat_completeness auto
termination
  by (relation "measure (\<lambda>(s, nLine). m_nMaxLines s - nLine)") auto

declare FindFreeLine.simps [simp del]

text \<open>
  The exit \<^verbatim>\<open>failed:\<close> of \<^verbatim>\<open>SocketAccept\<close>: clear the slot if one was chosen, close the
  socket, unlock (\<^verbatim>\<open>delete pLine\<close> has no effect outside the object).
\<close>

definition SocketAccept_failed ::
  "nat \<Rightarrow> int \<Rightarrow> CTerminalServer \<Rightarrow> event list \<Rightarrow> CTerminalServer \<times> event list" where
  "SocketAccept_failed nLine sktClient s evs =
     ((if nLine < m_nMaxLines s then s\<lparr>m_apLines := (m_apLines s)[nLine := None]\<rparr> else s),
      evs @ [EvCloseSocket sktClient, EvUnlock])"

text \<open>
  \<^verbatim>\<open>SocketAccept\<close>. \<open>accepted\<close> is the socket \<^verbatim>\<open>accept()\<close> returns (\<open>None\<close> for
  \<^verbatim>\<open>INVALID_SOCKET\<close>), \<open>fAsync\<close> says whether \<^verbatim>\<open>WSAAsyncSelect\<close> succeeded, \<open>peer\<close> is
  the answer of \<^verbatim>\<open>getpeername\<close> in the constructor of the line.
\<close>

definition SocketAccept ::
  "int option \<Rightarrow> bool \<Rightarrow> (32 word \<times> 16 word) option \<Rightarrow> CTerminalServer
     \<Rightarrow> error + (CTerminalServer \<times> event list)" where
  "SocketAccept accepted fAsync peer s =
     (case accepted of
        None \<Rightarrow> Inr (s, [])
      | Some sktClient \<Rightarrow>
          (if \<not> fAsync then Inr (SocketAccept_failed (m_nMaxLines s) sktClient s [EvLock])
           else
             (case FindFreeLine s 0 of
                Inl e \<Rightarrow> Inl e
              | Inr nLine \<Rightarrow>
                  (if nLine \<ge> m_nMaxLines s
                   then Inr (SocketAccept_failed nLine sktClient s [EvLock])
                   else
                     (let pLine = new_CTerminalLine nLine sktClient peer;
                          s1 = s\<lparr>m_apLines := (m_apLines s)[nLine := Some pLine]\<rparr>
                      in (case m_pConnectCallback s1 of
                            None \<Rightarrow>
                              Inr (s1\<lparr>m_apLines := (m_apLines s1)[nLine := Some pLine],
                                      m_mapSocket := (m_mapSocket s1)(sktClient \<mapsto> nLine)\<rparr>,
                                   [EvLock, EvUnlock])
                          | Some cb \<Rightarrow>
                              (let evs = [EvLock, EvConnect nLine (IsLineConnected s1 nLine)]
                               in if \<not> cb nLine
                                  then Inr (SocketAccept_failed nLine sktClient s1 evs)
                                  else
                                    Inr (s1\<lparr>m_apLines := (m_apLines s1)[nLine := Some pLine],
                                            m_mapSocket := (m_mapSocket s1)(sktClient \<mapsto> nLine)\<rparr>,
                                         evs @ [EvUnlock]))))))))"

text \<open>
  What \<^verbatim>\<open>recv\<close> answers: \<^verbatim>\<open>SOCKET_ERROR\<close>, or the bytes it put in the buffer
  (\<^verbatim>\<open>cbBuffer\<close> is their number, 0 for none, at most \<^verbatim>\<open>MAXRECV\<close>).
\<close>

datatype recv_result = SOCKET_ERROR | Received "byte list"

text \<open>
  \<^verbatim>\<open>SocketRead\<close>. The line object is changed in place by \<^verbatim>\<open>Receive\<close>; the model writes
  the changed line back into its slot.
\<close>

definition SocketRead ::
  "int \<Rightarrow> recv_result \<Rightarrow> CTerminalServer \<Rightarrow> error + (CTerminalServer \<times> event list)" where
  "SocketRead skt rcv s =
     (case SocketToLine skt s of
        (nLine, s1) \<Rightarrow>
          (case Line s1 nLine of
             Inl e \<Rightarrow> Inl e
           | Inr None \<Rightarrow> Inl AssertionFailed
           | Inr (Some pLine) \<Rightarrow>
               (case rcv of
                  SOCKET_ERROR \<Rightarrow> Inr (s1, [])
                | Received szBuffer \<Rightarrow>
                    (if length szBuffer = 0 then Disconnect nLine s1
                     else
                       (case Receive_loop s1 szBuffer pLine of
                          Inl e \<Rightarrow> Inl e
                        | Inr (pLine', evs) \<Rightarrow>
                            Inr (s1\<lparr>m_apLines := (m_apLines s1)[nLine := Some pLine']\<rparr>,
                                 evs))))))"

text \<open>
  The table is well formed when the array has \<^verbatim>\<open>m_nMaxLines\<close> slots, as the constructor
  leaves it (\<^verbatim>\<open>m_apLines.resize(m_nMaxLines)\<close>) and every method keeps it.
\<close>

definition wf_server :: "CTerminalServer \<Rightarrow> bool" where
  "wf_server s = (length (m_apLines s) = m_nMaxLines s)"

text \<open>
  The events a line may cause: a \<^verbatim>\<open>send()\<close> on its own socket and a call of the receive
  callback with its own line number.
\<close>

definition line_event :: "CTerminalLine \<Rightarrow> event \<Rightarrow> bool" where
  "line_event l e =
     (case e of
        EvSend skt abData \<Rightarrow> skt = m_ClientSocket l
      | EvReceive n ch \<Rightarrow> n = m_nLine l
      | _ \<Rightarrow> False)"

subsection \<open>Concrete states\<close>

text \<open>
  A server for two lines with a disconnect callback and no connect callback, first with
  no connection, then with one connection on socket 7 at line 0, then with both lines
  taken (sockets 7 and 9). They are the inputs of the concrete evaluations below.
\<close>

definition example_server :: CTerminalServer where
  "example_server =
     \<lparr> m_nMaxLines = 2, m_nServerPort = DEFAULT_PORT, m_lServerIP = INADDR_ANY,
       m_apLines = [None, None], m_mapSocket = Map.empty,
       m_pConnectCallback = None, m_pDisconnectCallback = True,
       m_pReceiveCallback = True, m_lCallbackParam = 0 \<rparr>"

definition example_line :: CTerminalLine where
  "example_line = new_CTerminalLine 0 7 None"

definition example_connected :: CTerminalServer where
  "example_connected =
     example_server\<lparr>m_apLines := [Some example_line, None], m_mapSocket := [7 \<mapsto> 0]\<rparr>"

definition example_full :: CTerminalServer where
  "example_full =
     example_server\<lparr>m_apLines := [Some example_line, Some (new_CTerminalLine 1 9 None)],
                     m_mapSocket := [7 \<mapsto> 0, 9 \<mapsto> 1]\<rparr>"

section \<open>Properties\<close>

lemmas telnet_consts =
  IAC_WILL_def IAC_WONT_def IAC_DO_def IAC_DONT_def IAC_def OPT_ECHO_def OPT_SGA_def
  CHNUL_def CHLFD_def CHCRT_def

lemmas send_defs =
  SocketWrite_def SendCommand_def SendWill_def SendWont_def SendDo_def SendDont_def

lemmas example_defs =
  example_server_def example_line_def example_connected_def example_full_def
  new_CTerminalLine_def

subsection \<open>The protocol engine: data bytes\<close>

lemma Receive_plain:
  "m_pReceiveCallback srv \<Longrightarrow> m_staCurrent l = STA_NORMAL \<Longrightarrow> b \<noteq> IAC \<Longrightarrow> b \<noteq> CHCRT \<Longrightarrow>
   Receive srv b l = Inr (l, if b = CHNUL then [] else [EvReceive (m_nLine l) b])"
  by (simp add: Receive_def ReceiveCallback_def)

text \<open>
  Claim C1, as stated, fails at the byte NUL: 0 is neither IAC nor CR, the line is in
  the normal state, and \<^verbatim>\<open>Receive\<close> delivers nothing (\<^verbatim>\<open>if (ch != CHNUL)\<close>).
\<close>

theorem Receive_NUL_counterexample:
  "(0::byte) \<noteq> IAC \<and> (0::byte) \<noteq> CHCRT \<and> m_staCurrent example_line = STA_NORMAL
   \<and> Receive example_connected 0 example_line = Inr (example_line, [])"
  by (simp add: Receive_def example_defs telnet_consts)

text \<open>
  Claim C1, amended: when the line is in the normal state, a buffer of bytes none of
  which is IAC (255) or CR (13) leaves the line as it was and calls the receive callback
  once for every byte other than NUL (0), with the byte unchanged and in input order;
  NUL bytes are dropped; nothing is sent to the client.
\<close>

theorem Receive_loop_plain:
  assumes "m_pReceiveCallback srv" and "m_staCurrent l = STA_NORMAL"
    and "\<forall>b\<in>set bs. b \<noteq> IAC \<and> b \<noteq> CHCRT"
  shows "Receive_loop srv bs l =
           Inr (l, map (EvReceive (m_nLine l)) (filter (\<lambda>b. b \<noteq> CHNUL) bs))"
  using assms by (induction bs) (simp_all add: Receive_plain)

text \<open>Claim C1, amended, at the bytes \<open>A NUL B\<close> on line 0.\<close>

theorem Receive_loop_plain_witness:
  "m_pReceiveCallback example_connected \<and> m_staCurrent example_line = STA_NORMAL
   \<and> (65::byte) \<noteq> IAC \<and> (65::byte) \<noteq> CHCRT \<and> (0::byte) \<noteq> IAC \<and> (0::byte) \<noteq> CHCRT
   \<and> (66::byte) \<noteq> IAC \<and> (66::byte) \<noteq> CHCRT
   \<and> Receive_loop example_connected [65, 0, 66] example_line =
       Inr (example_line, [EvReceive 0 65, EvReceive 0 66])"
  using Receive_loop_plain [of example_connected example_line "[65, 0, 66]"]
  by (simp add: example_defs telnet_consts)

subsection \<open>The protocol engine: carriage return\<close>

lemma Receive_CR:
  "m_pReceiveCallback srv \<Longrightarrow> m_staCurrent l = STA_NORMAL \<Longrightarrow>
   Receive srv CHCRT l = Inr (l\<lparr>m_staCurrent := STA_CR_LAST\<rparr>, [EvReceive (m_nLine l) CHCRT])"
  by (simp add: Receive_def ReceiveCallback_def telnet_consts)

lemma Receive_after_CR:
  "m_pReceiveCallback srv \<Longrightarrow> m_staCurrent l = STA_CR_LAST \<Longrightarrow>
   Receive srv X l = Inr (l\<lparr>m_staCurrent := STA_NORMAL\<rparr>,
                          if X = CHLFD \<or> X = CHNUL then [] else [EvReceive (m_nLine l) X])"
  by (simp add: Receive_def NextState_def ReceiveCallback_def)

text \<open>
  Claim C5: a CR received in the normal state is delivered and moves the line to
  \<^verbatim>\<open>STA_CR_LAST\<close>; the byte \<open>X\<close> received next is dropped when it is LF (10) or NUL (0)
  and delivered otherwise; either way the line is back in the normal state, with nothing
  else changed and nothing sent. So \<open>CR X\<close> delivers exactly one CR, followed by \<open>X\<close>
  unless \<open>X\<close> is LF or NUL.
\<close>

theorem CR_then_byte:
  assumes "m_pReceiveCallback srv" and "m_staCurrent l = STA_NORMAL"
  shows "Receive srv CHCRT l =
           Inr (l\<lparr>m_staCurrent := STA_CR_LAST\<rparr>, [EvReceive (m_nLine l) CHCRT])
       \<and> Receive srv X (l\<lparr>m_staCurrent := STA_CR_LAST\<rparr>) =
           Inr (l, if X = CHLFD \<or> X = CHNUL then [] else [EvReceive (m_nLine l) X])
       \<and> Receive_loop srv [CHCRT, X] l =
           Inr (l, EvReceive (m_nLine l) CHCRT #
                   (if X = CHLFD \<or> X = CHNUL then [] else [EvReceive (m_nLine l) X]))"
  using assms by (simp add: Receive_CR Receive_after_CR)

text \<open>
  Claim C5 at \<open>CR LF\<close>, at \<open>CR B\<close> and at the input \<open>A CR LF\<close> of the spec's
  scenario 2. In \<open>CR CR LF\<close> the second CR is the byte after a CR: it is delivered and
  ends the \<^verbatim>\<open>STA_CR_LAST\<close> state, so the LF after it is delivered too.
\<close>

theorem CR_then_byte_witness:
  "m_pReceiveCallback example_connected \<and> m_staCurrent example_line = STA_NORMAL
   \<and> Receive_loop example_connected [0x0D, 0x0A] example_line =
       Inr (example_line, [EvReceive 0 0x0D])
   \<and> Receive_loop example_connected [0x0D, 0x42] example_line =
       Inr (example_line, [EvReceive 0 0x0D, EvReceive 0 0x42])
   \<and> Receive_loop example_connected [0x41, 0x0D, 0x0A] example_line =
       Inr (example_line, [EvReceive 0 0x41, EvReceive 0 0x0D])
   \<and> Receive_loop example_connected [0x0D, 0x0D, 0x0A] example_line =
       Inr (example_line, [EvReceive 0 0x0D, EvReceive 0 0x0D, EvReceive 0 0x0A])"
  using CR_then_byte [of example_connected example_line "0x0A"]
    CR_then_byte [of example_connected example_line "0x42"]
  by (simp add: example_defs telnet_consts Receive_def NextState_def ReceiveCallback_def)

subsection \<open>The protocol engine: option negotiation\<close>

lemma Receive_IAC:
  "m_staCurrent l = STA_NORMAL \<Longrightarrow>
   Receive srv IAC l = Inr (l\<lparr>m_staCurrent := STA_IAC_RCVD\<rparr>, [])"
  by (simp add: Receive_def NextState_def)

lemma Receive_cmd:
  "m_staCurrent l = STA_IAC_RCVD \<Longrightarrow>
   Receive srv IAC_WILL l = Inr (l\<lparr>m_staCurrent := STA_WILL_RCVD\<rparr>, []) \<and>
   Receive srv IAC_WONT l = Inr (l\<lparr>m_staCurrent := STA_WONT_RCVD\<rparr>, []) \<and>
   Receive srv IAC_DO l = Inr (l\<lparr>m_staCurrent := STA_DO_RCVD\<rparr>, []) \<and>
   Receive srv IAC_DONT l = Inr (l\<lparr>m_staCurrent := STA_DONT_RCVD\<rparr>, [])"
  by (simp add: Receive_def NextState_def telnet_consts)

lemma Receive_option:
  "m_staCurrent l = STA_WILL_RCVD \<Longrightarrow>
     Receive srv opt l =
       Inr ((fst (HandleWill opt l))\<lparr>m_staCurrent := STA_NORMAL\<rparr>, snd (HandleWill opt l))"
  "m_staCurrent l = STA_WONT_RCVD \<Longrightarrow>
     Receive srv opt l =
       Inr ((fst (HandleWont opt l))\<lparr>m_staCurrent := STA_NORMAL\<rparr>, snd (HandleWont opt l))"
  "m_staCurrent l = STA_DO_RCVD \<Longrightarrow>
     Receive srv opt l =
       Inr ((fst (HandleDo opt l))\<lparr>m_staCurrent := STA_NORMAL\<rparr>, snd (HandleDo opt l))"
  "m_staCurrent l = STA_DONT_RCVD \<Longrightarrow>
     Receive srv opt l =
       Inr ((fst (HandleDont opt l))\<lparr>m_staCurrent := STA_NORMAL\<rparr>, snd (HandleDont opt l))"
  by (simp_all add: Receive_def NextState_def split: prod.splits)

lemma Receive_loop_WILL:
  "m_staCurrent l = STA_NORMAL \<Longrightarrow>
   Receive_loop srv [IAC, IAC_WILL, opt] l =
     Inr ((fst (HandleWill opt (l\<lparr>m_staCurrent := STA_WILL_RCVD\<rparr>)))\<lparr>m_staCurrent := STA_NORMAL\<rparr>,
          snd (HandleWill opt (l\<lparr>m_staCurrent := STA_WILL_RCVD\<rparr>)))"
  by (simp add: Receive_IAC Receive_cmd Receive_option)

lemma Receive_loop_DO:
  "m_staCurrent l = STA_NORMAL \<Longrightarrow>
   Receive_loop srv [IAC, IAC_DO, opt] l =
     Inr ((fst (HandleDo opt (l\<lparr>m_staCurrent := STA_DO_RCVD\<rparr>)))\<lparr>m_staCurrent := STA_NORMAL\<rparr>,
          snd (HandleDo opt (l\<lparr>m_staCurrent := STA_DO_RCVD\<rparr>)))"
  by (simp add: Receive_IAC Receive_cmd Receive_option)

text \<open>
  Claim C6: for an option other than ECHO (1) and SGA (3), the input \<open>IAC WILL opt\<close>
  received in the normal state sends exactly \<open>IAC DONT opt\<close>, and the input
  \<open>IAC DO opt\<close> sends exactly \<open>IAC WONT opt\<close>; in both cases the receive callback is not
  called and the line ends as it began, in the normal state.
\<close>

theorem decline_other_options:
  assumes "m_staCurrent l = STA_NORMAL" and "opt \<noteq> OPT_ECHO" and "opt \<noteq> OPT_SGA"
  shows "Receive_loop srv [IAC, IAC_WILL, opt] l =
           Inr (l, [EvSend (m_ClientSocket l) [IAC, IAC_DONT, opt]])
       \<and> Receive_loop srv [IAC, IAC_DO, opt] l =
           Inr (l, [EvSend (m_ClientSocket l) [IAC, IAC_WONT, opt]])"
  using assms
  by (simp add: Receive_loop_WILL Receive_loop_DO HandleWill_def HandleDo_def send_defs
      del: Receive_loop.simps)

text \<open>Claim C6 at the option NAWS (31) on socket 7.\<close>

theorem decline_other_options_witness:
  "m_staCurrent example_line = STA_NORMAL \<and> (31::byte) \<noteq> OPT_ECHO \<and> (31::byte) \<noteq> OPT_SGA
   \<and> Receive_loop example_connected [255, 251, 31] example_line =
       Inr (example_line, [EvSend 7 [255, 254, 31]])
   \<and> Receive_loop example_connected [255, 253, 31] example_line =
       Inr (example_line, [EvSend 7 [255, 252, 31]])"
  using decline_other_options [of example_line 31 example_connected]
  by (simp add: example_defs telnet_consts)

text \<open>
  Claim C2, as stated, fails: with the echo option disabled, the input \<open>IAC WILL ECHO\<close>
  is answered by \<open>IAC DONT ECHO\<close> (255, 254, 1), not by \<open>IAC WILL ECHO\<close>, and the echo
  option stays disabled (\<^verbatim>\<open>HandleWill\<close> knows SGA only).
\<close>

theorem WILL_ECHO_counterexample:
  "Receive_loop example_connected [255, 251, 1] (example_line\<lparr>m_optLocalEcho := OPT_DISABLED\<rparr>) =
     Inr (example_line\<lparr>m_optLocalEcho := OPT_DISABLED\<rparr>, [EvSend 7 [255, 254, 1]])"
  by (simp add: example_defs telnet_consts Receive_def NextState_def HandleWill_def send_defs)

text \<open>
  Claim C2, amended: the input \<open>IAC WILL ECHO\<close>, received in the normal state, sends
  exactly one \<open>IAC DONT ECHO\<close> and changes nothing. The outbound \<open>IAC WILL ECHO\<close> comes
  from \<^verbatim>\<open>SetLocalEcho(false)\<close> called while \<^verbatim>\<open>m_optLocalEcho\<close> (does the client echo
  locally) is enabled: it sends exactly that sequence and puts the option in the waiting
  state. An input \<open>IAC DO ECHO\<close> received in that state sets the option to disabled and
  sends nothing.
\<close>

theorem echo_negotiation:
  assumes "m_staCurrent l = STA_NORMAL"
  shows "Receive_loop srv [IAC, IAC_WILL, OPT_ECHO] l =
           Inr (l, [EvSend (m_ClientSocket l) [IAC, IAC_DONT, OPT_ECHO]])
       \<and> (m_optLocalEcho l = OPT_ENABLED \<longrightarrow>
            SetLocalEcho False l =
              (l\<lparr>m_optLocalEcho := OPT_WAITING\<rparr>,
               [EvSend (m_ClientSocket l) [IAC, IAC_WILL, OPT_ECHO]]))
       \<and> (m_optLocalEcho l = OPT_WAITING \<longrightarrow>
            Receive_loop srv [IAC, IAC_DO, OPT_ECHO] l =
              Inr (l\<lparr>m_optLocalEcho := OPT_DISABLED\<rparr>, []))"
  using assms
  by (simp add: Receive_loop_WILL Receive_loop_DO HandleWill_def HandleDo_def send_defs
      SetLocalEcho_def OPT_ECHO_def OPT_SGA_def del: Receive_loop.simps)

text \<open>
  Claim C2, amended, on a new line (echo enabled): \<^verbatim>\<open>SetLocalEcho(false)\<close> sends
  255, 251, 1 and waits; the answer \<open>IAC DO ECHO\<close> then disables the option silently.
\<close>

theorem echo_negotiation_witness:
  "m_staCurrent example_line = STA_NORMAL \<and> m_optLocalEcho example_line = OPT_ENABLED
   \<and> SetLocalEcho False example_line =
       (example_line\<lparr>m_optLocalEcho := OPT_WAITING\<rparr>, [EvSend 7 [255, 251, 1]])
   \<and> m_optLocalEcho (example_line\<lparr>m_optLocalEcho := OPT_WAITING\<rparr>) = OPT_WAITING
   \<and> Receive_loop example_connected [255, 253, 1] (example_line\<lparr>m_optLocalEcho := OPT_WAITING\<rparr>) =
       Inr (example_line\<lparr>m_optLocalEcho := OPT_DISABLED\<rparr>, [])
   \<and> Receive_loop example_connected [255, 251, 1] example_line =
       Inr (example_line, [EvSend 7 [255, 254, 1]])"
  using echo_negotiation [of example_line example_connected]
    echo_negotiation [of "example_line\<lparr>m_optLocalEcho := OPT_WAITING\<rparr>" example_connected]
  by (simp add: example_defs telnet_consts)

text \<open>
  Claim C8, as stated, fails for \<^verbatim>\<open>SuppressGoAhead\<close>: on a new line the first call
  sends \<open>IAC WILL SGA\<close> and \<open>IAC DO SGA\<close> and leaves both SGA options waiting; a second
  call, made in that waiting state, sends both sequences again (the test is
  \<^verbatim>\<open>!= OPT_ENABLED\<close>).
\<close>

theorem SuppressGoAhead_twice_counterexample:
  "SuppressGoAhead example_line =
     (example_line\<lparr>m_optLocalSGA := OPT_WAITING, m_optRemoteSGA := OPT_WAITING\<rparr>,
      [EvSend 7 [255, 251, 3], EvSend 7 [255, 253, 3]])
   \<and> SuppressGoAhead (example_line\<lparr>m_optLocalSGA := OPT_WAITING, m_optRemoteSGA := OPT_WAITING\<rparr>) =
     (example_line\<lparr>m_optLocalSGA := OPT_WAITING, m_optRemoteSGA := OPT_WAITING\<rparr>,
      [EvSend 7 [255, 251, 3], EvSend 7 [255, 253, 3]])"
  by (simp add: SuppressGoAhead_def example_defs send_defs telnet_consts)

text \<open>
  Claim C8, amended. \<^verbatim>\<open>SetLocalEcho(fEcho)\<close> sends nothing and changes nothing when the
  echo option is waiting or already in the wanted state (enabled for \<open>fEcho\<close>, disabled
  otherwise); in the remaining case it sends exactly one \<open>IAC WONT ECHO\<close> (for \<open>fEcho\<close>)
  or \<open>IAC WILL ECHO\<close> and moves the option to the waiting state, which the answers
  \<open>IAC DO ECHO\<close> (to disabled) and \<open>IAC DONT ECHO\<close> (to enabled) end without sending.
  \<^verbatim>\<open>SuppressGoAhead\<close> leaves an SGA option alone only when it is enabled: for a local
  option that is disabled or waiting it sends \<open>IAC WILL SGA\<close>, for a remote option that
  is disabled or waiting it sends \<open>IAC DO SGA\<close>, and either option is then waiting.
\<close>

theorem option_requests:
  "SetLocalEcho fEcho l =
     (if m_optLocalEcho l = OPT_WAITING
         \<or> m_optLocalEcho l = (if fEcho then OPT_ENABLED else OPT_DISABLED)
      then (l, [])
      else (l\<lparr>m_optLocalEcho := OPT_WAITING\<rparr>,
            [EvSend (m_ClientSocket l) [IAC, if fEcho then IAC_WONT else IAC_WILL, OPT_ECHO]]))
   \<and> SuppressGoAhead l =
     (l\<lparr>m_optLocalSGA := (if m_optLocalSGA l = OPT_ENABLED then OPT_ENABLED else OPT_WAITING),
        m_optRemoteSGA := (if m_optRemoteSGA l = OPT_ENABLED then OPT_ENABLED else OPT_WAITING)\<rparr>,
      (if m_optLocalSGA l = OPT_ENABLED then []
       else [EvSend (m_ClientSocket l) [IAC, IAC_WILL, OPT_SGA]]) @
      (if m_optRemoteSGA l = OPT_ENABLED then []
       else [EvSend (m_ClientSocket l) [IAC, IAC_DO, OPT_SGA]]))
   \<and> (m_optLocalEcho l = OPT_WAITING \<longrightarrow>
        HandleDo OPT_ECHO l = (l\<lparr>m_optLocalEcho := OPT_DISABLED\<rparr>, [])
        \<and> HandleDont OPT_ECHO l = (l\<lparr>m_optLocalEcho := OPT_ENABLED\<rparr>, []))"
  by (cases "m_optLocalEcho l"; cases "m_optLocalSGA l"; cases "m_optRemoteSGA l"; cases fEcho)
     (simp_all add: SetLocalEcho_def SuppressGoAhead_def HandleDo_def HandleDont_def
        send_defs OPT_ECHO_def OPT_SGA_def)

text \<open>
  Claim C8, amended, on a new line: enabling the echo that is enabled does nothing,
  disabling it sends 255, 251, 1 and waits, and a second request while waiting does
  nothing.
\<close>

theorem option_requests_witness:
  "SetLocalEcho True example_line = (example_line, [])
   \<and> SetLocalEcho False example_line =
       (example_line\<lparr>m_optLocalEcho := OPT_WAITING\<rparr>, [EvSend 7 [255, 251, 1]])
   \<and> SetLocalEcho False (example_line\<lparr>m_optLocalEcho := OPT_WAITING\<rparr>) =
       (example_line\<lparr>m_optLocalEcho := OPT_WAITING\<rparr>, [])
   \<and> SuppressGoAhead (example_line\<lparr>m_optLocalSGA := OPT_ENABLED, m_optRemoteSGA := OPT_ENABLED\<rparr>) =
       (example_line\<lparr>m_optLocalSGA := OPT_ENABLED, m_optRemoteSGA := OPT_ENABLED\<rparr>, [])"
  using option_requests [of True example_line] option_requests [of False example_line]
    option_requests [of False "example_line\<lparr>m_optLocalEcho := OPT_WAITING\<rparr>"]
    option_requests [of False "example_line\<lparr>m_optLocalSGA := OPT_ENABLED, m_optRemoteSGA := OPT_ENABLED\<rparr>"]
  by (simp add: example_defs telnet_consts)

subsection \<open>The table of lines\<close>

text \<open>
  Claim C9: for a socket that is not in the reverse map, \<^verbatim>\<open>SocketToLine\<close> answers line 0
  and leaves the map with a new entry from that socket to line 0; the server is not
  what it was, and \<^verbatim>\<open>IsSocketConnected\<close> now holds of the socket.
\<close>

theorem SocketToLine_unknown:
  assumes "m_mapSocket s skt = None"
  shows "SocketToLine skt s = (0, s\<lparr>m_mapSocket := (m_mapSocket s)(skt \<mapsto> 0)\<rparr>)
       \<and> \<not> IsSocketConnected s skt
       \<and> IsSocketConnected (snd (SocketToLine skt s)) skt
       \<and> snd (SocketToLine skt s) \<noteq> s"
  using assms
  apply (simp add: SocketToLine_def IsSocketConnected_def)
  apply (rule notI)
  apply (drule arg_cong[where f="\<lambda>t. m_mapSocket t skt"])
  apply simp
  done

text \<open>Claim C9 for the socket 5 on the server with no connection.\<close>

theorem SocketToLine_unknown_witness:
  "m_mapSocket example_server 5 = None
   \<and> SocketToLine 5 example_server = (0, example_server\<lparr>m_mapSocket := [5 \<mapsto> 0]\<rparr>)
   \<and> IsSocketConnected (snd (SocketToLine 5 example_server)) 5"
  using SocketToLine_unknown [of example_server 5]
  by (simp add: example_defs SocketToLine_def IsSocketConnected_def)

lemma Disconnect_connected:
  "nLine < length (m_apLines s) \<Longrightarrow> m_apLines s ! nLine = Some pLine \<Longrightarrow>
   Disconnect nLine s =
     Inr (s\<lparr>m_apLines := (m_apLines s)[nLine := None],
            m_mapSocket := (m_mapSocket s)(m_ClientSocket pLine := None)\<rparr>,
          (if m_pDisconnectCallback s then [EvDisconnect nLine True] else [])
          @ [EvCloseSocket (m_ClientSocket pLine), EvUnlock])"
  by (simp add: Disconnect_def Line_def IsLineConnected_def Let_def)

lemma Disconnect_not_connected:
  "nLine < length (m_apLines s) \<Longrightarrow> m_apLines s ! nLine = None \<Longrightarrow>
   Disconnect nLine s = Inl AssertionFailed"
  by (simp add: Disconnect_def Line_def)

text \<open>
  Claim C3, as stated, fails: on the server with line 0 connected, the first
  \<^verbatim>\<open>Disconnect(0)\<close> calls the callback, closes socket 7 and empties the table; the
  second \<^verbatim>\<open>Disconnect(0)\<close> is not a no-op, it fails \<^verbatim>\<open>assert(pLine != NULL)\<close>.
\<close>

theorem Disconnect_twice_counterexample:
  "Disconnect 0 example_connected =
     Inr (example_server, [EvDisconnect 0 True, EvCloseSocket 7, EvUnlock])
   \<and> Disconnect 0 example_server = Inl AssertionFailed"
  by (simp add: Disconnect_def Line_def IsLineConnected_def Let_def example_defs)

text \<open>
  Claim C3, amended: \<^verbatim>\<open>Disconnect(line)\<close> requires a connected line. On a connected line
  it calls the disconnect callback (when one is set) exactly once, first, while the
  entry is still in the table, then closes the socket once and removes the entry from the
  array and from the reverse map. It is not idempotent: a second call for the same line
  fails the assertion that the line exists.
\<close>

theorem Disconnect_once:
  assumes "nLine < length (m_apLines s)" and "m_apLines s ! nLine = Some pLine"
  shows "\<exists>s'. Disconnect nLine s =
            Inr (s', (if m_pDisconnectCallback s then [EvDisconnect nLine True] else [])
                     @ [EvCloseSocket (m_ClientSocket pLine), EvUnlock])
          \<and> s' = s\<lparr>m_apLines := (m_apLines s)[nLine := None],
                    m_mapSocket := (m_mapSocket s)(m_ClientSocket pLine := None)\<rparr>
          \<and> Line s' nLine = Inr None
          \<and> m_mapSocket s' (m_ClientSocket pLine) = None
          \<and> Disconnect nLine s' = Inl AssertionFailed"
  using assms
  by (simp add: Disconnect_connected Disconnect_not_connected Line_def)

text \<open>Claim C3, amended, for line 0 of the server with one connection.\<close>

theorem Disconnect_once_witness:
  "0 < length (m_apLines example_connected)
   \<and> m_apLines example_connected ! 0 = Some example_line
   \<and> Disconnect 0 example_connected =
       Inr (example_server, [EvDisconnect 0 True, EvCloseSocket 7, EvUnlock])
   \<and> Disconnect 0 example_server = Inl AssertionFailed"
  using Disconnect_once [of 0 example_connected example_line]
  by (simp add: example_defs)

subsection \<open>Reading from a socket\<close>

lemma Handle_events:
  "list_all (line_event l) (snd (HandleWill opt l))"
  "list_all (line_event l) (snd (HandleWont opt l))"
  "list_all (line_event l) (snd (HandleDo opt l))"
  "list_all (line_event l) (snd (HandleDont opt l))"
  by (simp_all add: HandleWill_def HandleWont_def HandleDo_def HandleDont_def send_defs
      line_event_def split: OPTION_STATE.splits)

lemma Handle_ids:
  "m_nLine (fst (HandleWill opt l)) = m_nLine l \<and> m_ClientSocket (fst (HandleWill opt l)) = m_ClientSocket l"
  "m_nLine (fst (HandleWont opt l)) = m_nLine l \<and> m_ClientSocket (fst (HandleWont opt l)) = m_ClientSocket l"
  "m_nLine (fst (HandleDo opt l)) = m_nLine l \<and> m_ClientSocket (fst (HandleDo opt l)) = m_ClientSocket l"
  "m_nLine (fst (HandleDont opt l)) = m_nLine l \<and> m_ClientSocket (fst (HandleDont opt l)) = m_ClientSocket l"
  by (simp_all add: HandleWill_def HandleWont_def HandleDo_def HandleDont_def
      split: OPTION_STATE.splits)

lemma Receive_total:
  assumes "m_pReceiveCallback srv"
  shows "\<exists>l' evs. Receive srv ch l = Inr (l', evs) \<and> list_all (line_event l) evs
           \<and> m_nLine l' = m_nLine l \<and> m_ClientSocket l' = m_ClientSocket l"
proof (cases "m_staCurrent l")
  case STA_NORMAL
  with assms show ?thesis
    by (simp add: Receive_def NextState_def ReceiveCallback_def line_event_def)
next
  case STA_IAC_RCVD
  with assms show ?thesis
    by (simp add: Receive_def NextState_def ReceiveCallback_def line_event_def)
next
  case STA_WILL_RCVD
  with Handle_events(1) [of l ch] Handle_ids(1) [of ch l] show ?thesis
    by (auto simp add: Receive_def NextState_def split: prod.splits)
next
  case STA_WONT_RCVD
  with Handle_events(2) [of l ch] Handle_ids(2) [of ch l] show ?thesis
    by (auto simp add: Receive_def NextState_def split: prod.splits)
next
  case STA_DO_RCVD
  with Handle_events(3) [of l ch] Handle_ids(3) [of ch l] show ?thesis
    by (auto simp add: Receive_def NextState_def split: prod.splits)
next
  case STA_DONT_RCVD
  with Handle_events(4) [of l ch] Handle_ids(4) [of ch l] show ?thesis
    by (auto simp add: Receive_def NextState_def split: prod.splits)
next
  case STA_CR_LAST
  with assms show ?thesis
    by (simp add: Receive_def NextState_def ReceiveCallback_def line_event_def)
qed

lemma line_event_cong:
  "m_nLine l' = m_nLine l \<Longrightarrow> m_ClientSocket l' = m_ClientSocket l \<Longrightarrow>
   line_event l' = line_event l"
  by (rule ext) (simp add: line_event_def split: event.splits)

lemma Receive_loop_total:
  assumes "m_pReceiveCallback srv"
  shows "\<exists>l' evs. Receive_loop srv bs l = Inr (l', evs) \<and> list_all (line_event l) evs
           \<and> m_nLine l' = m_nLine l \<and> m_ClientSocket l' = m_ClientSocket l"
proof (induction bs arbitrary: l)
  case Nil
  show ?case by simp
next
  case (Cons ch rest)
  from Receive_total [OF assms, of ch l] obtain l1 evs1 where
    1: "Receive srv ch l = Inr (l1, evs1)" "list_all (line_event l) evs1"
       "m_nLine l1 = m_nLine l" "m_ClientSocket l1 = m_ClientSocket l"
    by blast
  from Cons.IH [of l1] obtain l2 evs2 where
    2: "Receive_loop srv rest l1 = Inr (l2, evs2)" "list_all (line_event l1) evs2"
       "m_nLine l2 = m_nLine l1" "m_ClientSocket l2 = m_ClientSocket l1"
    by blast
  from 1 2 line_event_cong [OF 1(3) 1(4)] show ?case by simp
qed

text \<open>
  Claim C4, as stated, fails for an I/O error: when \<^verbatim>\<open>recv\<close> answers
  \<^verbatim>\<open>SOCKET_ERROR\<close>, \<^verbatim>\<open>SocketRead\<close> only logs; the table is unchanged, the callback is not
  called and the socket is not closed, unlike what \<^verbatim>\<open>Disconnect(0)\<close> does in that state.
\<close>

theorem SocketRead_error_counterexample:
  "SocketRead 7 SOCKET_ERROR example_connected = Inr (example_connected, [])
   \<and> Disconnect 0 example_connected =
       Inr (example_server, [EvDisconnect 0 True, EvCloseSocket 7, EvUnlock])"
  by (simp add: SocketRead_def SocketToLine_def Line_def Disconnect_def IsLineConnected_def
      Let_def example_defs)

text \<open>
  Claim C4, amended: on a read-ready event for the socket of a connected line, a
  zero-length \<^verbatim>\<open>recv\<close> result makes \<^verbatim>\<open>SocketRead\<close> do exactly what \<^verbatim>\<open>Disconnect(line)\<close>
  does (callback, close, removal); a \<^verbatim>\<open>recv\<close> error changes nothing and causes no event,
  the line stays connected; and when \<^verbatim>\<open>recv\<close> returns \<open>n > 0\<close> bytes, those bytes go to
  \<^verbatim>\<open>Receive\<close> one by one, in order, the line stays in its slot with the state they leave,
  and the only events are sends on the line's socket and receive callbacks for the line.
\<close>

theorem SocketRead_cases:
  assumes "m_mapSocket s skt = Some nLine" and "nLine < length (m_apLines s)"
    and "m_apLines s ! nLine = Some pLine" and "m_pReceiveCallback s"
  shows "SocketRead skt (Received []) s = Disconnect nLine s
       \<and> Disconnect nLine s =
           Inr (s\<lparr>m_apLines := (m_apLines s)[nLine := None],
                  m_mapSocket := (m_mapSocket s)(m_ClientSocket pLine := None)\<rparr>,
                (if m_pDisconnectCallback s then [EvDisconnect nLine True] else [])
                @ [EvCloseSocket (m_ClientSocket pLine), EvUnlock])
       \<and> SocketRead skt SOCKET_ERROR s = Inr (s, [])
       \<and> (szBuffer \<noteq> [] \<longrightarrow>
            (\<exists>pLine' evs. Receive_loop s szBuffer pLine = Inr (pLine', evs)
               \<and> SocketRead skt (Received szBuffer) s =
                   Inr (s\<lparr>m_apLines := (m_apLines s)[nLine := Some pLine']\<rparr>, evs)
               \<and> list_all (line_event pLine) evs))"
proof -
  from Receive_loop_total [OF assms(4), of szBuffer pLine] obtain pLine' evs where
    r: "Receive_loop s szBuffer pLine = Inr (pLine', evs)" "list_all (line_event pLine) evs"
    by blast
  have "SocketRead skt (Received szBuffer) s =
          Inr (s\<lparr>m_apLines := (m_apLines s)[nLine := Some pLine']\<rparr>, evs)"
    if "szBuffer \<noteq> []"
    using that assms r(1) by (simp add: SocketRead_def SocketToLine_def Line_def)
  with r assms show ?thesis
    by (simp add: SocketRead_def SocketToLine_def Line_def Disconnect_connected)
qed

text \<open>Claim C4, amended, for socket 7 of the server with one connection.\<close>

theorem SocketRead_cases_witness:
  "m_mapSocket example_connected 7 = Some 0 \<and> 0 < length (m_apLines example_connected)
   \<and> m_apLines example_connected ! 0 = Some example_line
   \<and> m_pReceiveCallback example_connected
   \<and> SocketRead 7 (Received []) example_connected =
       Inr (example_server, [EvDisconnect 0 True, EvCloseSocket 7, EvUnlock])
   \<and> SocketRead 7 SOCKET_ERROR example_connected = Inr (example_connected, [])
   \<and> SocketRead 7 (Received [0x41, 0x0D, 0x0A]) example_connected =
       Inr (example_connected, [EvReceive 0 0x41, EvReceive 0 0x0D])"
proof -
  have r: "Receive_loop example_connected [0x41, 0x0D, 0x0A] example_line =
             Inr (example_line, [EvReceive 0 0x41, EvReceive 0 0x0D])"
    by (simp add: example_defs telnet_consts Receive_def NextState_def ReceiveCallback_def)
  show ?thesis
    using SocketRead_cases [of example_connected 7 0 example_line "[0x41, 0x0D, 0x0A]"] r
    by (auto simp add: example_defs)
qed

subsection \<open>Accepting a connection\<close>

lemma FindFreeLine_spec:
  "wf_server s \<Longrightarrow> k \<le> m_nMaxLines s \<Longrightarrow>
   \<exists>n. FindFreeLine s k = Inr n \<and> k \<le> n \<and> n \<le> m_nMaxLines s
      \<and> (\<forall>i. k \<le> i \<and> i < n \<longrightarrow> m_apLines s ! i \<noteq> None)
      \<and> (n < m_nMaxLines s \<longrightarrow> m_apLines s ! n = None)"
proof (induction s k rule: FindFreeLine.induct)
  case (1 s nLine)
  show ?case
  proof (cases "nLine < m_nMaxLines s")
    case False
    then have "FindFreeLine s nLine = Inr nLine"
      by (simp add: FindFreeLine.simps [of s nLine])
    with False "1.prems" show ?thesis by auto
  next
    case True
    then have inr: "Line s nLine = Inr (m_apLines s ! nLine)"
      using "1.prems" by (simp add: Line_def wf_server_def)
    show ?thesis
    proof (cases "m_apLines s ! nLine")
      case None
      with True inr have "FindFreeLine s nLine = Inr nLine"
        by (simp add: FindFreeLine.simps [of s nLine])
      with True None "1.prems" show ?thesis by auto
    next
      case (Some pLine)
      from "1.IH" [OF True inr Some] "1.prems" True
      obtain n where n: "FindFreeLine s (nLine + 1) = Inr n" "nLine + 1 \<le> n" "n \<le> m_nMaxLines s"
        "\<forall>i. nLine + 1 \<le> i \<and> i < n \<longrightarrow> m_apLines s ! i \<noteq> None"
        "n < m_nMaxLines s \<longrightarrow> m_apLines s ! n = None"
        by auto
      have "\<forall>i. nLine \<le> i \<and> i < n \<longrightarrow> m_apLines s ! i \<noteq> None"
      proof (intro allI impI)
        fix i assume "nLine \<le> i \<and> i < n"
        then consider "i = nLine" | "nLine + 1 \<le> i \<and> i < n" by linarith
        then show "m_apLines s ! i \<noteq> None" using Some n(4) by cases auto
      qed
      moreover from True inr Some n(1) have "FindFreeLine s nLine = Inr n"
        by (simp add: FindFreeLine.simps [of s nLine])
      ultimately show ?thesis using n(2,3,5) by auto
    qed
  qed
qed


lemma Disconnect_wf:
  "wf_server s \<Longrightarrow> Disconnect nLine s = Inr (s', evs) \<Longrightarrow>
   wf_server s' \<and> m_nMaxLines s' = m_nMaxLines s"
  by (auto simp add: Disconnect_def wf_server_def Let_def split: sum.splits option.splits)

lemma SocketAccept_full:
  assumes "wf_server s" and "\<forall>i<m_nMaxLines s. m_apLines s ! i \<noteq> None"
  shows "SocketAccept (Some skt) fAsync peer s = Inr (s, [EvLock, EvCloseSocket skt, EvUnlock])"
proof -
  from FindFreeLine_spec [OF assms(1), of 0] obtain n where
    n: "FindFreeLine s 0 = Inr n" "n \<le> m_nMaxLines s" "n < m_nMaxLines s \<longrightarrow> m_apLines s ! n = None"
    by auto
  with assms(2) have "n = m_nMaxLines s" by (cases "n < m_nMaxLines s") auto
  with n(1) show ?thesis
    by (simp add: SocketAccept_def SocketAccept_failed_def)
qed

lemma SocketAccept_free:
  assumes "wf_server s" and "FindFreeLine s 0 = Inr n" and "n < m_nMaxLines s"
    and "m_pConnectCallback s = None \<or> (\<exists>cb. m_pConnectCallback s = Some cb \<and> cb n)"
  shows "SocketAccept (Some skt) True peer s =
           Inr (s\<lparr>m_apLines := (m_apLines s)[n := Some (new_CTerminalLine n skt peer)],
                  m_mapSocket := (m_mapSocket s)(skt \<mapsto> n)\<rparr>,
                [EvLock] @ (if m_pConnectCallback s = None then [] else [EvConnect n True])
                @ [EvUnlock])"
  using assms
  by (auto simp add: SocketAccept_def Let_def IsLineConnected_def wf_server_def)

lemma SocketAccept_refused:
  assumes "wf_server s" and "FindFreeLine s 0 = Inr n" and "n < m_nMaxLines s"
    and "m_apLines s ! n = None"
    and "m_pConnectCallback s = Some cb" and "\<not> cb n"
  shows "SocketAccept (Some skt) True peer s =
           Inr (s, [EvLock, EvConnect n True, EvCloseSocket skt, EvUnlock])"
  using assms
  by (simp add: SocketAccept_def SocketAccept_failed_def Let_def IsLineConnected_def
      wf_server_def list_update_same_conv)

lemma Disconnect_frees:
  assumes wf: "wf_server s" and lt: "nLine < m_nMaxLines s"
    and conn: "m_apLines s ! nLine = Some pLine"
  shows "\<exists>s' evs k. Disconnect nLine s = Inr (s', evs) \<and> wf_server s'
           \<and> FindFreeLine s' 0 = Inr k \<and> k \<le> nLine \<and> m_apLines s' ! k = None
           \<and> ((\<forall>i<nLine. m_apLines s ! i \<noteq> None) \<longrightarrow> k = nLine)"
proof -
  define s' where "s' = s\<lparr>m_apLines := (m_apLines s)[nLine := None],
            m_mapSocket := (m_mapSocket s)(m_ClientSocket pLine := None)\<rparr>"
  from wf lt have len: "nLine < length (m_apLines s)" by (simp add: wf_server_def)
  have d: "Disconnect nLine s = Inr (s', (if m_pDisconnectCallback s then [EvDisconnect nLine True] else [])
          @ [EvCloseSocket (m_ClientSocket pLine), EvUnlock])"
    unfolding s'_def by (rule Disconnect_connected [OF len conn])
  have wf': "wf_server s'" using wf by (simp add: s'_def wf_server_def)
  have max': "m_nMaxLines s' = m_nMaxLines s" by (simp add: s'_def)
  have slot: "m_apLines s' ! nLine = None" using len by (simp add: s'_def)
  have other: "\<And>i. i \<noteq> nLine \<Longrightarrow> m_apLines s' ! i = m_apLines s ! i" by (simp add: s'_def)
  from FindFreeLine_spec [OF wf', of 0] obtain k where
    k: "FindFreeLine s' 0 = Inr k" "k \<le> m_nMaxLines s'"
       "\<forall>i. i < k \<longrightarrow> m_apLines s' ! i \<noteq> None"
       "k < m_nMaxLines s' \<longrightarrow> m_apLines s' ! k = None"
    by auto
  have le: "k \<le> nLine"
  proof (rule ccontr)
    assume "\<not> k \<le> nLine"
    then have "nLine < k" by simp
    with k(3) slot show False by auto
  qed
  with lt max' k(4) have free: "m_apLines s' ! k = None" by simp
  have "k = nLine" if occ: "\<forall>i<nLine. m_apLines s ! i \<noteq> None"
  proof (rule ccontr)
    assume "k \<noteq> nLine"
    with le have "k < nLine" by simp
    with occ other [of k] free show False by auto
  qed
  with d wf' k(1) le free show ?thesis by blast
qed

text \<open>
  Claim C7: on a well-formed table the search of \<^verbatim>\<open>SocketAccept\<close> ends at the lowest
  line whose slot is empty (every lower slot is occupied, the slot found is not), or at
  \<^verbatim>\<open>m_nMaxLines\<close> when there is none; an accepted connection is put at exactly that line,
  in the array and in the reverse map. When every slot is occupied the new socket is
  closed, the table is unchanged and the connect callback is not called. After
  \<^verbatim>\<open>Disconnect(nLine)\<close> of a connected line the search finds a free line no higher than
  \<open>nLine\<close>, and \<open>nLine\<close> itself when all lower lines are occupied.
\<close>

theorem line_allocation:
  assumes "wf_server s"
  shows "(\<exists>n. FindFreeLine s 0 = Inr n \<and> n \<le> m_nMaxLines s
            \<and> (\<forall>i<n. m_apLines s ! i \<noteq> None)
            \<and> (n < m_nMaxLines s \<longrightarrow> m_apLines s ! n = None)
            \<and> (n < m_nMaxLines s
                 \<and> (m_pConnectCallback s = None \<or> (\<exists>cb. m_pConnectCallback s = Some cb \<and> cb n))
               \<longrightarrow> SocketAccept (Some skt) True peer s =
                     Inr (s\<lparr>m_apLines := (m_apLines s)[n := Some (new_CTerminalLine n skt peer)],
                            m_mapSocket := (m_mapSocket s)(skt \<mapsto> n)\<rparr>,
                          [EvLock]
                          @ (if m_pConnectCallback s = None then [] else [EvConnect n True])
                          @ [EvUnlock])))
       \<and> ((\<forall>i<m_nMaxLines s. m_apLines s ! i \<noteq> None)
            \<longrightarrow> SocketAccept (Some skt) fAsync peer s =
                  Inr (s, [EvLock, EvCloseSocket skt, EvUnlock]))
       \<and> (nLine < m_nMaxLines s \<and> m_apLines s ! nLine = Some pLine
            \<longrightarrow> (\<exists>s' evs k. Disconnect nLine s = Inr (s', evs) \<and> wf_server s'
                    \<and> FindFreeLine s' 0 = Inr k \<and> k \<le> nLine \<and> m_apLines s' ! k = None
                    \<and> ((\<forall>i<nLine. m_apLines s ! i \<noteq> None) \<longrightarrow> k = nLine)))"
proof (intro conjI impI)
  from FindFreeLine_spec [OF assms, of 0] obtain n where
    n: "FindFreeLine s 0 = Inr n" "n \<le> m_nMaxLines s"
       "\<forall>i<n. m_apLines s ! i \<noteq> None"
       "n < m_nMaxLines s \<longrightarrow> m_apLines s ! n = None"
    by auto
  have "SocketAccept (Some skt) True peer s =
          Inr (s\<lparr>m_apLines := (m_apLines s)[n := Some (new_CTerminalLine n skt peer)],
                 m_mapSocket := (m_mapSocket s)(skt \<mapsto> n)\<rparr>,
               [EvLock] @ (if m_pConnectCallback s = None then [] else [EvConnect n True])
               @ [EvUnlock])"
    if "n < m_nMaxLines s
        \<and> (m_pConnectCallback s = None \<or> (\<exists>cb. m_pConnectCallback s = Some cb \<and> cb n))"
    using that SocketAccept_free [OF assms n(1)] by blast
  with n show "\<exists>n. FindFreeLine s 0 = Inr n \<and> n \<le> m_nMaxLines s
            \<and> (\<forall>i<n. m_apLines s ! i \<noteq> None)
            \<and> (n < m_nMaxLines s \<longrightarrow> m_apLines s ! n = None)
            \<and> (n < m_nMaxLines s
                 \<and> (m_pConnectCallback s = None \<or> (\<exists>cb. m_pConnectCallback s = Some cb \<and> cb n))
               \<longrightarrow> SocketAccept (Some skt) True peer s =
                     Inr (s\<lparr>m_apLines := (m_apLines s)[n := Some (new_CTerminalLine n skt peer)],
                            m_mapSocket := (m_mapSocket s)(skt \<mapsto> n)\<rparr>,
                          [EvLock]
                          @ (if m_pConnectCallback s = None then [] else [EvConnect n True])
                          @ [EvUnlock]))"
    by blast
next
  assume "\<forall>i<m_nMaxLines s. m_apLines s ! i \<noteq> None"
  then show "SocketAccept (Some skt) fAsync peer s = Inr (s, [EvLock, EvCloseSocket skt, EvUnlock])"
    by (rule SocketAccept_full [OF assms])
next
  assume "nLine < m_nMaxLines s \<and> m_apLines s ! nLine = Some pLine"
  then show "\<exists>s' evs k. Disconnect nLine s = Inr (s', evs) \<and> wf_server s'
                    \<and> FindFreeLine s' 0 = Inr k \<and> k \<le> nLine \<and> m_apLines s' ! k = None
                    \<and> ((\<forall>i<nLine. m_apLines s ! i \<noteq> None) \<longrightarrow> k = nLine)"
    using Disconnect_frees [OF assms] by blast
qed

text \<open>
  Claim C7 on the two-line server: with line 0 taken a connection gets line 1; with
  both taken the next one is closed at once; after line 0 disconnects it is line 0 that
  is found free.
\<close>

theorem line_allocation_witness:
  "wf_server example_connected \<and> wf_server example_full
   \<and> FindFreeLine example_connected 0 = Inr 1
   \<and> SocketAccept (Some 9) True None example_connected = Inr (example_full, [EvLock, EvUnlock])
   \<and> SocketAccept (Some 11) True None example_full =
       Inr (example_full, [EvLock, EvCloseSocket 11, EvUnlock])
   \<and> (\<exists>s' evs. Disconnect 0 example_full = Inr (s', evs) \<and> FindFreeLine s' 0 = Inr 0)"
proof -
  have a: "wf_server example_connected" and b: "wf_server example_full"
    by (simp_all add: wf_server_def example_defs)
  have c: "FindFreeLine example_connected 0 = Inr 1"
    by (simp add: example_defs FindFreeLine.simps Line_def)
  have d: "example_connected\<lparr>m_apLines := (m_apLines example_connected)[1 := Some (new_CTerminalLine 1 9 None)],
                            m_mapSocket := (m_mapSocket example_connected)(9 \<mapsto> 1)\<rparr> = example_full"
    by (simp add: example_defs)
  have e: "m_pConnectCallback example_connected = None" "m_nMaxLines example_connected = 2"
    "m_nMaxLines example_full = 2" "m_apLines example_full ! 0 = Some example_line"
    "\<forall>i<2. m_apLines example_full ! i \<noteq> None"
    by (simp_all add: example_defs less_Suc_eq numeral_2_eq_2)
  show ?thesis
    using line_allocation [where s = example_connected and skt = 9 and peer = None
        and fAsync = True and nLine = 0 and pLine = example_line]
      line_allocation [where s = example_full and skt = 11 and peer = None
        and fAsync = True and nLine = 0 and pLine = example_line]
      a b c d e
    by auto
qed

subsection \<open>The constructor and the size of the table\<close>

lemma SocketAccept_wf:
  "wf_server s \<Longrightarrow> SocketAccept accepted fAsync peer s = Inr (s', evs) \<Longrightarrow>
   wf_server s' \<and> m_nMaxLines s' = m_nMaxLines s"
  by (auto simp add: SocketAccept_def SocketAccept_failed_def wf_server_def Let_def
      split: sum.splits option.splits if_splits)

lemma SocketToLine_wf:
  "wf_server s \<Longrightarrow> wf_server (snd (SocketToLine skt s))
     \<and> m_nMaxLines (snd (SocketToLine skt s)) = m_nMaxLines s"
  by (simp add: SocketToLine_def wf_server_def split: option.splits)

lemma SocketRead_wf:
  assumes "wf_server s" and "SocketRead skt rcv s = Inr (s', evs)"
  shows "wf_server s' \<and> m_nMaxLines s' = m_nMaxLines s"
proof -
  obtain nLine s1 where s1: "SocketToLine skt s = (nLine, s1)" by (cases "SocketToLine skt s")
  with SocketToLine_wf [OF assms(1), of skt]
  have wf1: "wf_server s1" "m_nMaxLines s1 = m_nMaxLines s" by simp_all
  show ?thesis
  proof (cases rcv)
    case SOCKET_ERROR
    with assms(2) s1 wf1 show ?thesis
      by (auto simp add: SocketRead_def split: sum.splits option.splits)
  next
    case (Received szBuffer)
    show ?thesis
    proof (cases "szBuffer = []")
      case True
      with assms(2) s1 Received have "Disconnect nLine s1 = Inr (s', evs)"
        by (auto simp add: SocketRead_def split: sum.splits option.splits)
      with Disconnect_wf [OF wf1(1)] wf1(2) show ?thesis by simp
    next
      case False
      with assms(2) s1 Received wf1 show ?thesis
        by (auto simp add: SocketRead_def wf_server_def split: sum.splits option.splits)
    qed
  qed
qed

text \<open>
  Claim C10: the constructor succeeds only when no server exists yet,
  \<open>0 < nMaxLines \<le> 64\<close> and the receive callback is non-null, and fails an assertion
  when \<open>nMaxLines\<close> is 0 or above 64 or the receive callback is null. When it succeeds,
  \<^verbatim>\<open>m_nMaxLines\<close> is \<open>nMaxLines\<close>, at most 64, the array has that many slots, every
  slot is empty and the reverse map is empty. \<^verbatim>\<open>Disconnect\<close>, \<^verbatim>\<open>SocketAccept\<close> and
  \<^verbatim>\<open>SocketRead\<close> change neither \<^verbatim>\<open>m_nMaxLines\<close> nor the size of the array, so the maximum
  stays at or below 64.
\<close>

theorem constructor_bounds:
  "(new_CTerminalServer fExists pReceive pConnect pDisconnect lParam nMaxLines = Inr s \<longrightarrow>
      \<not> fExists \<and> 0 < nMaxLines \<and> nMaxLines \<le> 64 \<and> pReceive
      \<and> m_nMaxLines s = unat nMaxLines \<and> 0 < m_nMaxLines s \<and> m_nMaxLines s \<le> DEFAULT_LINES
      \<and> m_pReceiveCallback s \<and> wf_server s
      \<and> (\<forall>i<m_nMaxLines s. Line s i = Inr None) \<and> m_mapSocket s = Map.empty)
   \<and> (\<not> fExists \<and> 0 < nMaxLines \<and> nMaxLines \<le> 64 \<and> pReceive \<longrightarrow>
        (\<exists>s. new_CTerminalServer fExists pReceive pConnect pDisconnect lParam nMaxLines = Inr s))
   \<and> (nMaxLines = 0 \<or> 64 < nMaxLines \<or> \<not> pReceive \<longrightarrow>
        new_CTerminalServer fExists pReceive pConnect pDisconnect lParam nMaxLines
          = Inl AssertionFailed)
   \<and> (wf_server s0
        \<and> (Disconnect nLine s0 = Inr (s1, evs)
           \<or> SocketAccept accepted fAsync peer s0 = Inr (s1, evs)
           \<or> SocketRead skt rcv s0 = Inr (s1, evs))
       \<longrightarrow> wf_server s1 \<and> m_nMaxLines s1 = m_nMaxLines s0)"
proof -
  have "wf_server s1 \<and> m_nMaxLines s1 = m_nMaxLines s0"
    if "wf_server s0
        \<and> (Disconnect nLine s0 = Inr (s1, evs)
           \<or> SocketAccept accepted fAsync peer s0 = Inr (s1, evs)
           \<or> SocketRead skt rcv s0 = Inr (s1, evs))"
    using that Disconnect_wf SocketAccept_wf SocketRead_wf by blast
  then show ?thesis
    by (auto simp add: new_CTerminalServer_def DEFAULT_LINES_def wf_server_def Line_def
      word_less_nat_alt word_le_nat_alt unat_gt_0 split: if_splits)
qed

text \<open>
  Claim C10 at \<open>nMaxLines = 2\<close> (accepted, two empty slots), 65 and 0 (refused), and a
  null receive callback (refused); accepting a connection keeps the maximum at 2.
\<close>

theorem constructor_bounds_witness:
  "new_CTerminalServer False True None True 0 2 = Inr example_server
   \<and> (0::32 word) < 2 \<and> (2::32 word) \<le> 64
   \<and> m_nMaxLines example_server = 2 \<and> m_apLines example_server = [None, None]
   \<and> new_CTerminalServer False True None True 0 65 = Inl AssertionFailed
   \<and> new_CTerminalServer False True None True 0 0 = Inl AssertionFailed
   \<and> new_CTerminalServer False False None True 0 2 = Inl AssertionFailed
   \<and> wf_server example_server
   \<and> SocketAccept (Some 7) True None example_server = Inr (example_connected, [EvLock, EvUnlock])
   \<and> wf_server example_connected \<and> m_nMaxLines example_connected = 2"
proof -
  have r: "replicate 2 None = [None, None :: CTerminalLine option]"
    by (simp add: numeral_2_eq_2)
  have a: "new_CTerminalServer False True None True 0 2 = Inr example_server"
    by (simp add: new_CTerminalServer_def DEFAULT_LINES_def example_defs r)
  have b: "SocketAccept (Some 7) True None example_server = Inr (example_connected, [EvLock, EvUnlock])"
    by (simp add: SocketAccept_def FindFreeLine.simps Line_def Let_def example_defs)
  have c: "m_nMaxLines example_server = 2" "m_apLines example_server = [None, None]"
    by (simp_all add: example_defs)
  note t1 = constructor_bounds [where fExists = False and pReceive = True and pConnect = None
        and pDisconnect = True and lParam = 0 and nMaxLines = 2 and s = example_server
        and ?s0.0 = example_server and ?s1.0 = example_connected and accepted = "Some 7"
        and fAsync = True and peer = None and evs = "[EvLock, EvUnlock]"]
  note t2 = constructor_bounds [where fExists = False and pReceive = True and pConnect = None
        and pDisconnect = True and lParam = 0 and nMaxLines = 65]
  note t3 = constructor_bounds [where fExists = False and pReceive = True and pConnect = None
        and pDisconnect = True and lParam = 0 and nMaxLines = 0]
  note t4 = constructor_bounds [where fExists = False and pReceive = False and pConnect = None
        and pDisconnect = True and lParam = 0 and nMaxLines = 2]
  from t1 a b have "wf_server example_server" "wf_server example_connected"
    "m_nMaxLines example_connected = m_nMaxLines example_server" by simp_all
  moreover from t2 have "new_CTerminalServer False True None True 0 65 = Inl AssertionFailed" by simp
  moreover from t3 have "new_CTerminalServer False True None True 0 0 = Inl AssertionFailed" by simp
  moreover from t4 have "new_CTerminalServer False False None True 0 2 = Inl AssertionFailed" by simp
  ultimately show ?thesis using a b c by simp
qed

end
